theory Spec2Isabelle
  imports Complex_Main "HOL-Library.AList"
begin

section \<open>Strings\<close>

text \<open>
  Python strings are modelled as Isabelle strings over single-byte characters; the case
  mappings and the whitespace test are the ASCII parts of \<^verbatim>\<open>str.upper\<close>,
  \<^verbatim>\<open>str.lower\<close> and \<^verbatim>\<open>str.strip\<close>.
\<close>

definition is_digit :: "char \<Rightarrow> bool" where
  "is_digit c = (48 \<le> (of_char c :: nat) \<and> (of_char c :: nat) \<le> 57)"

definition upper_char :: "char \<Rightarrow> char" where
  "upper_char c =
     (if 97 \<le> (of_char c :: nat) \<and> (of_char c :: nat) \<le> 122
      then char_of ((of_char c :: nat) - 32) else c)"

definition lower_char :: "char \<Rightarrow> char" where
  "lower_char c =
     (if 65 \<le> (of_char c :: nat) \<and> (of_char c :: nat) \<le> 90
      then char_of ((of_char c :: nat) + 32) else c)"

definition upper :: "string \<Rightarrow> string" where
  "upper s = map upper_char s"

definition lower :: "string \<Rightarrow> string" where
  "lower s = map lower_char s"

definition is_space :: "char \<Rightarrow> bool" where
  "is_space c =
     ((9 \<le> (of_char c :: nat) \<and> (of_char c :: nat) \<le> 13)
      \<or> (28 \<le> (of_char c :: nat) \<and> (of_char c :: nat) \<le> 32))"

definition strip :: "string \<Rightarrow> string" where
  "strip s = rev (dropWhile is_space (rev (dropWhile is_space s)))"



text \<open>
  The pattern \<^verbatim>\<open>^CVE-\d{4}-\d{4,}$\<close> of \<^verbatim>\<open>CVEBase.cve_id\<close> and of the path parameter
  of \<^verbatim>\<open>get_cve\<close>: the prefix, four digits, a hyphen, four or more digits.
\<close>

definition cve_id_pattern :: "string \<Rightarrow> bool" where
  "cve_id_pattern s =
     (13 \<le> length s \<and> take 4 s = ''CVE-''
      \<and> list_all is_digit (take 4 (drop 4 s))
      \<and> take 1 (drop 8 s) = ''-''
      \<and> list_all is_digit (drop 9 s))"

section \<open>Values, rows and errors\<close>

datatype json =
    JNull
  | JBool bool
  | JNum rat
  | JStr string
  | JArr "json list"
  | JObj "(string \<times> json) list"

text \<open>
  A column value as the store returns it and as the client sends it. Instants are integers
  (seconds since the epoch); the ISO-8601 text that travels between Python and the store
  is not modelled, a \<open>VTime\<close> stands for both the \<^verbatim>\<open>datetime\<close> and its text.
\<close>

datatype val =
    VNull
  | VInt int
  | VNum rat
  | VStr string
  | VTime int
  | VJson json

text \<open>A row and a request body are Python dictionaries: association lists by column name.\<close>

type_synonym row = "(string \<times> val) list"

datatype db_error =
    UnknownColumn string
  | DuplicateKey
  | BadRange

datatype error =
    KeyError string
  | ValidationError string
  | ValueError string
  | APIError db_error
  | NVDAPIError string
  | RateLimitError string

definition field :: "row \<Rightarrow> string \<Rightarrow> val" where
  "field r k = (case map_of r k of Some v \<Rightarrow> v | None \<Rightarrow> VNull)"

definition ov_str :: "string option \<Rightarrow> val" where
  "ov_str x = (case x of None \<Rightarrow> VNull | Some s \<Rightarrow> VStr s)"

definition ov_time :: "int option \<Rightarrow> val" where
  "ov_time x = (case x of None \<Rightarrow> VNull | Some t \<Rightarrow> VTime t)"

definition ov_num :: "rat option \<Rightarrow> val" where
  "ov_num x = (case x of None \<Rightarrow> VNull | Some q \<Rightarrow> VNum q)"

definition ov_dicts :: "json list option \<Rightarrow> val" where
  "ov_dicts x = (case x of None \<Rightarrow> VNull | Some js \<Rightarrow> VJson (JArr js))"

definition ov_dict :: "(string \<times> json) list option \<Rightarrow> val" where
  "ov_dict x = (case x of None \<Rightarrow> VNull | Some kvs \<Rightarrow> VJson (JObj kvs))"

definition is_dict :: "json \<Rightarrow> bool" where
  "is_dict j = (case j of JObj kvs \<Rightarrow> True | _ \<Rightarrow> False)"

section \<open>The models of app/models/cve.py\<close>

text \<open>
  \<open>cve_base\<close> is \<^verbatim>\<open>CVEBase\<close> (its \<^verbatim>\<open>descriptions\<close> list is never filled by the
  code modelled here and is left out). \<open>cve_scored\<close> collects the fields that
  \<^verbatim>\<open>CVECreate\<close> and \<^verbatim>\<open>CVEResponse\<close> both declare, so that the two records share
  their selectors. The primary key \<^verbatim>\<open>id\<close> is the field \<open>row_id\<close>.
\<close>

record cve_base =
  cve_id :: string
  source_identifier :: "string option"
  vuln_status :: "string option"
  published :: "int option"
  last_modified :: "int option"

record cve_scored = cve_base +
  description :: "string option"
  cvss_v2_score :: "rat option"
  cvss_v3_score :: "rat option"
  cvss_v2_vector :: "string option"
  cvss_v3_vector :: "string option"
  cvss_v2_severity :: "string option"
  cvss_v3_severity :: "string option"
  cpe_configurations :: "json list option"
  references :: "json list option"
  weaknesses :: "json list option"
  configurations :: "json list option"

record cve_create = cve_scored +
  raw_data :: "(string \<times> json) list option"

record cve_response = cve_scored +
  row_id :: int
  created_at :: int
  updated_at :: int

text \<open>
  \<^verbatim>\<open>CVEUpdate\<close> is used only through \<^verbatim>\<open>dict(exclude_unset=True)\<close>: it is modelled
  as that dictionary, the fields that were set, by field name.
\<close>

type_synonym cve_update = "(string \<times> val) list"

text \<open>
  \<^verbatim>\<open>CVEBase.validate_cve_id\<close>: the field's pattern is checked first, then the validator
  runs.
\<close>

definition validate_cve_id :: "string \<Rightarrow> error + string" where
  "validate_cve_id v =
     (if \<not> cve_id_pattern v then Inl (ValidationError ''cve_id'')
      else if take 4 v \<noteq> ''CVE-'' then Inl (ValueError ''CVE ID must start with CVE-'')
      else Inr (upper v))"

definition score_in_range :: "rat option \<Rightarrow> bool" where
  "score_in_range x = (case x of None \<Rightarrow> True | Some q \<Rightarrow> 0 \<le> q \<and> q \<le> 10)"

definition dicts_ok :: "json list option \<Rightarrow> bool" where
  "dicts_ok x = (case x of None \<Rightarrow> True | Some js \<Rightarrow> list_all is_dict js)"

text \<open>The validation pydantic runs when a \<^verbatim>\<open>CVECreate\<close> is constructed.\<close>

definition validate_cve_create :: "cve_create \<Rightarrow> error + cve_create" where
  "validate_cve_create c =
     (case validate_cve_id (cve_id c) of
        Inl e \<Rightarrow> Inl e
      | Inr i \<Rightarrow>
          if \<not> score_in_range (cvss_v2_score c) then Inl (ValidationError ''cvss_v2_score'')
          else if \<not> score_in_range (cvss_v3_score c) then Inl (ValidationError ''cvss_v3_score'')
          else if \<not> dicts_ok (cpe_configurations c) then Inl (ValidationError ''cpe_configurations'')
          else if \<not> dicts_ok (references c) then Inl (ValidationError ''references'')
          else if \<not> dicts_ok (weaknesses c) then Inl (ValidationError ''weaknesses'')
          else if \<not> dicts_ok (configurations c) then Inl (ValidationError ''configurations'')
          else Inr (c\<lparr>cve_id := i\<rparr>))"

section \<open>The store\<close>

text \<open>
  The rows of the table \<^verbatim>\<open>sync_status\<close>, as \<^verbatim>\<open>SyncStatus\<close> reads them. The primary
  key \<^verbatim>\<open>id\<close> is the field \<open>sync_id\<close>.
\<close>

record sync_row =
  sync_id :: int
  sync_type :: string
  status :: string
  started_at :: int
  completed_at :: "int option"
  total_records :: int
  processed_records :: int
  new_records :: int
  updated_records :: int
  error_message :: "string option"
  last_modified_date :: "int option"

text \<open>
  The state of the external store (Supabase, reached through PostgREST). The schema file of
  the table \<^verbatim>\<open>cves\<close> is not part of the repository, so its column names are a
  component of the state. The store is taken to answer every well-formed request; it
  rejects a request that names a column the table does not have, an insert that repeats
  a \<^verbatim>\<open>cve_id\<close>, and a negative offset or limit.
\<close>

record database =
  cves_columns :: "string list"
  cves :: "row list"
  cves_next_id :: int
  sync_status :: "sync_row list"
  sync_next_id :: int

text \<open>
  The columns the code itself names: the keys \<^verbatim>\<open>create_cve\<close> inserts, the keys
  \<^verbatim>\<open>_row_to_cve_response\<close> reads, and the server-assigned ones.
\<close>

definition cves_schema :: "string list" where
  "cves_schema =
     [''id'', ''cve_id'', ''source_identifier'', ''vuln_status'', ''published'',
      ''last_modified'', ''description'', ''cvss_v2_score'', ''cvss_v3_score'',
      ''cvss_v2_vector'', ''cvss_v3_vector'', ''cvss_v2_severity'', ''cvss_v3_severity'',
      ''cpe_configurations'', ''cve_references'', ''weaknesses'', ''configurations'',
      ''raw_data'', ''created_at'', ''updated_at'']"

definition unknown_column :: "string list \<Rightarrow> (string \<times> val) list \<Rightarrow> string option" where
  "unknown_column cols body = find (\<lambda>k. k \<notin> set cols) (map fst body)"

text \<open>
  A new row has every column of the table: the value of the request body, or the server's
  default (the next primary key, the current instant for the two system timestamps, NULL
  otherwise).
\<close>

definition new_row :: "string list \<Rightarrow> int \<Rightarrow> int \<Rightarrow> (string \<times> val) list \<Rightarrow> row" where
  "new_row cols rid now body =
     map (\<lambda>c. (c, case map_of body c of
                     Some v \<Rightarrow> v
                   | None \<Rightarrow>
                       if c = ''id'' then VInt rid
                       else if c = ''created_at'' \<or> c = ''updated_at'' then VTime now
                       else VNull)) cols"

definition has_cve_id :: "string \<Rightarrow> row \<Rightarrow> bool" where
  "has_cve_id i r = (map_of r ''cve_id'' = Some (VStr i))"

text \<open>\<^verbatim>\<open>table("cves").insert(body).execute()\<close>: the new state and the inserted row.\<close>

definition insert_cves :: "int \<Rightarrow> database \<Rightarrow> (string \<times> val) list \<Rightarrow> db_error + (database \<times> row)" where
  "insert_cves now db body =
     (case unknown_column (cves_columns db) body of
        Some k \<Rightarrow> Inl (UnknownColumn k)
      | None \<Rightarrow>
          if list_ex (\<lambda>r. map_of r ''cve_id'' = Some (field body ''cve_id'')) (cves db)
          then Inl DuplicateKey
          else
            (let r = new_row (cves_columns db) (cves_next_id db) now body
             in Inr (db\<lparr>cves := cves db @ [r], cves_next_id := cves_next_id db + 1\<rparr>, r)))"

definition apply_update :: "(string \<times> val) list \<Rightarrow> row \<Rightarrow> row" where
  "apply_update body r =
     map (\<lambda>(c, v). (c, case map_of body c of Some v' \<Rightarrow> v' | None \<Rightarrow> v)) r"

text \<open>
  \<^verbatim>\<open>table("cves").update(body).eq("cve_id", i).execute()\<close>: the new state and the rows
  that were updated.
\<close>

definition update_cves :: "database \<Rightarrow> (string \<times> val) list \<Rightarrow> string \<Rightarrow> db_error + (database \<times> row list)" where
  "update_cves db body i =
     (case unknown_column (cves_columns db) body of
        Some k \<Rightarrow> Inl (UnknownColumn k)
      | None \<Rightarrow>
          Inr (db\<lparr>cves := map (\<lambda>r. if has_cve_id i r then apply_update body r else r) (cves db)\<rparr>,
               map (apply_update body) (filter (has_cve_id i) (cves db))))"

section \<open>CVEService: reading a row\<close>

definition is_opt_str :: "val \<Rightarrow> bool" where
  "is_opt_str v = (case v of VNull \<Rightarrow> True | VStr s \<Rightarrow> True | _ \<Rightarrow> False)"

definition is_opt_time :: "val \<Rightarrow> bool" where
  "is_opt_time v = (case v of VNull \<Rightarrow> True | VTime t \<Rightarrow> True | _ \<Rightarrow> False)"

definition is_opt_num :: "val \<Rightarrow> bool" where
  "is_opt_num v = (case v of VNull \<Rightarrow> True | VNum q \<Rightarrow> True | VInt n \<Rightarrow> True | _ \<Rightarrow> False)"

definition is_opt_dicts :: "val \<Rightarrow> bool" where
  "is_opt_dicts v =
     (case v of VNull \<Rightarrow> True | VJson (JArr js) \<Rightarrow> list_all is_dict js | _ \<Rightarrow> False)"

definition str_of :: "val \<Rightarrow> string option" where
  "str_of v = (case v of VStr s \<Rightarrow> Some s | _ \<Rightarrow> None)"

definition time_of :: "val \<Rightarrow> int option" where
  "time_of v = (case v of VTime t \<Rightarrow> Some t | _ \<Rightarrow> None)"

definition num_of :: "val \<Rightarrow> rat option" where
  "num_of v = (case v of VNum q \<Rightarrow> Some q | VInt n \<Rightarrow> Some (of_int n) | _ \<Rightarrow> None)"

definition dicts_of :: "val \<Rightarrow> json list option" where
  "dicts_of v = (case v of VJson (JArr js) \<Rightarrow> Some js | _ \<Rightarrow> None)"

text \<open>The keys \<^verbatim>\<open>_row_to_cve_response\<close> subscripts, in its order.\<close>

definition response_keys :: "string list" where
  "response_keys =
     [''id'', ''cve_id'', ''source_identifier'', ''vuln_status'', ''published'',
      ''last_modified'', ''description'', ''cvss_v2_score'', ''cvss_v3_score'',
      ''cvss_v2_vector'', ''cvss_v3_vector'', ''cvss_v2_severity'', ''cvss_v3_severity'',
      ''cpe_configurations'', ''cve_references'', ''weaknesses'', ''configurations'',
      ''created_at'', ''updated_at'']"

text \<open>The type checks pydantic runs when the \<^verbatim>\<open>CVEResponse\<close> is constructed.\<close>

definition response_types_ok :: "row \<Rightarrow> bool" where
  "response_types_ok r =
     ((case field r ''id'' of VInt n \<Rightarrow> True | _ \<Rightarrow> False)
      \<and> list_all (\<lambda>k. is_opt_str (field r k))
           [''source_identifier'', ''vuln_status'', ''description'', ''cvss_v2_vector'',
            ''cvss_v3_vector'', ''cvss_v2_severity'', ''cvss_v3_severity'']
      \<and> list_all (\<lambda>k. is_opt_time (field r k)) [''published'', ''last_modified'']
      \<and> list_all (\<lambda>k. is_opt_num (field r k)) [''cvss_v2_score'', ''cvss_v3_score'']
      \<and> list_all (\<lambda>k. is_opt_dicts (field r k))
           [''cpe_configurations'', ''cve_references'', ''weaknesses'', ''configurations'']
      \<and> list_all (\<lambda>k. case field r k of VTime t \<Rightarrow> True | _ \<Rightarrow> False)
           [''created_at'', ''updated_at''])"

text \<open>
  \<^verbatim>\<open>CVEService._row_to_cve_response\<close>: a missing key raises \<^verbatim>\<open>KeyError\<close>, a value of
  the wrong type or an identifier that fails \<^verbatim>\<open>validate_cve_id\<close> a validation error.
\<close>

definition row_to_cve_response :: "row \<Rightarrow> error + cve_response" where
  "row_to_cve_response r =
     (case find (\<lambda>k. map_of r k = None) response_keys of
        Some k \<Rightarrow> Inl (KeyError k)
      | None \<Rightarrow>
          if \<not> response_types_ok r then Inl (ValidationError ''CVEResponse'')
          else
            (case str_of (field r ''cve_id'') of
               None \<Rightarrow> Inl (ValidationError ''cve_id'')
             | Some i \<Rightarrow>
                 (case validate_cve_id i of
                    Inl e \<Rightarrow> Inl e
                  | Inr i' \<Rightarrow>
                      Inr \<lparr>cve_id = i',
                           source_identifier = str_of (field r ''source_identifier''),
                           vuln_status = str_of (field r ''vuln_status''),
                           published = time_of (field r ''published''),
                           last_modified = time_of (field r ''last_modified''),
                           description = str_of (field r ''description''),
                           cvss_v2_score = num_of (field r ''cvss_v2_score''),
                           cvss_v3_score = num_of (field r ''cvss_v3_score''),
                           cvss_v2_vector = str_of (field r ''cvss_v2_vector''),
                           cvss_v3_vector = str_of (field r ''cvss_v3_vector''),
                           cvss_v2_severity = str_of (field r ''cvss_v2_severity''),
                           cvss_v3_severity = str_of (field r ''cvss_v3_severity''),
                           cpe_configurations = dicts_of (field r ''cpe_configurations''),
                           references = dicts_of (field r ''cve_references''),
                           weaknesses = dicts_of (field r ''weaknesses''),
                           configurations = dicts_of (field r ''configurations''),
                           row_id = (case field r ''id'' of VInt n \<Rightarrow> n | _ \<Rightarrow> 0),
                           created_at = (case field r ''created_at'' of VTime t \<Rightarrow> t | _ \<Rightarrow> 0),
                           updated_at = (case field r ''updated_at'' of VTime t \<Rightarrow> t | _ \<Rightarrow> 0)\<rparr>)))"

section \<open>CVEService: create, update, read\<close>

text \<open>
  \<^verbatim>\<open>CVEService.get_cve_by_id\<close>: the first row the store returns for the identifier; any
  exception is logged and \<^verbatim>\<open>None\<close> is returned.
\<close>

definition get_cve_by_id :: "database \<Rightarrow> string \<Rightarrow> cve_response option" where
  "get_cve_by_id db i =
     (case filter (has_cve_id i) (cves db) of
        [] \<Rightarrow> None
      | r # rs \<Rightarrow> (case row_to_cve_response r of Inl e \<Rightarrow> None | Inr c \<Rightarrow> Some c))"

text \<open>
  The dictionary \<^verbatim>\<open>insert_data\<close> of \<^verbatim>\<open>create_cve\<close>. A score that is falsy (absent or
  zero) is sent as NULL; the field \<^verbatim>\<open>references\<close> goes to the column
  \<^verbatim>\<open>cve_references\<close>.
\<close>

definition truthy_score :: "rat option \<Rightarrow> rat option" where
  "truthy_score x = (case x of None \<Rightarrow> None | Some q \<Rightarrow> if q = 0 then None else Some q)"

definition insert_data :: "cve_create \<Rightarrow> (string \<times> val) list" where
  "insert_data c =
     [(''cve_id'', VStr (cve_id c)),
      (''source_identifier'', ov_str (source_identifier c)),
      (''vuln_status'', ov_str (vuln_status c)),
      (''published'', ov_time (published c)),
      (''last_modified'', ov_time (last_modified c)),
      (''description'', ov_str (description c)),
      (''cvss_v2_score'', ov_num (truthy_score (cvss_v2_score c))),
      (''cvss_v3_score'', ov_num (truthy_score (cvss_v3_score c))),
      (''cvss_v2_vector'', ov_str (cvss_v2_vector c)),
      (''cvss_v3_vector'', ov_str (cvss_v3_vector c)),
      (''cvss_v2_severity'', ov_str (cvss_v2_severity c)),
      (''cvss_v3_severity'', ov_str (cvss_v3_severity c)),
      (''cpe_configurations'', ov_dicts (cpe_configurations c)),
      (''cve_references'', ov_dicts (references c)),
      (''weaknesses'', ov_dicts (weaknesses c)),
      (''configurations'', ov_dicts (configurations c)),
      (''raw_data'', ov_dict (raw_data c))]"

text \<open>
  \<^verbatim>\<open>CVEService.create_cve\<close>. The result pairs the state with the outcome, since an
  exception raised after the insert leaves the inserted row behind.
\<close>

definition create_cve :: "int \<Rightarrow> database \<Rightarrow> cve_create \<Rightarrow> database \<times> (error + cve_response)" where
  "create_cve now db cve_data =
     (case insert_cves now db (insert_data cve_data) of
        Inl DuplicateKey \<Rightarrow>
          (db, Inl (ValueError (''CVE '' @ cve_id cve_data @ '' already exists'')))
      | Inl e \<Rightarrow> (db, Inl (APIError e))
      | Inr (db', r) \<Rightarrow> (db', row_to_cve_response r))"

text \<open>
  \<^verbatim>\<open>CVEService.update_cve\<close>. Every field of the update goes to the column of the same
  name, \<^verbatim>\<open>updated_at\<close> is added; an exception of the store is logged and \<^verbatim>\<open>None\<close>
  is returned.
\<close>

definition update_cve :: "int \<Rightarrow> database \<Rightarrow> string \<Rightarrow> cve_update \<Rightarrow> database \<times> cve_response option" where
  "update_cve now db i cve_data =
     (if cve_data = [] then (db, get_cve_by_id db i)
      else
        (case update_cves db (cve_data @ [(''updated_at'', VTime now)]) i of
           Inl e \<Rightarrow> (db, None)
         | Inr (db', rows) \<Rightarrow>
             (case rows of
                [] \<Rightarrow> (db', None)
              | r # rs \<Rightarrow>
                  (case row_to_cve_response r of
                     Inl e \<Rightarrow> (db', None)
                   | Inr c \<Rightarrow> (db', Some c)))))"

text \<open>
  \<^verbatim>\<open>CVEUpdate(**cve_data.dict(exclude={'cve_id'}))\<close> followed by
  \<^verbatim>\<open>dict(exclude_unset=True)\<close>: every field of \<^verbatim>\<open>CVEUpdate\<close> is set, under its own name.
\<close>

definition cve_update_of :: "cve_create \<Rightarrow> cve_update" where
  "cve_update_of c =
     [(''source_identifier'', ov_str (source_identifier c)),
      (''vuln_status'', ov_str (vuln_status c)),
      (''published'', ov_time (published c)),
      (''last_modified'', ov_time (last_modified c)),
      (''description'', ov_str (description c)),
      (''cvss_v2_score'', ov_num (cvss_v2_score c)),
      (''cvss_v3_score'', ov_num (cvss_v3_score c)),
      (''cvss_v2_vector'', ov_str (cvss_v2_vector c)),
      (''cvss_v3_vector'', ov_str (cvss_v3_vector c)),
      (''cvss_v2_severity'', ov_str (cvss_v2_severity c)),
      (''cvss_v3_severity'', ov_str (cvss_v3_severity c)),
      (''cpe_configurations'', ov_dicts (cpe_configurations c)),
      (''references'', ov_dicts (references c)),
      (''weaknesses'', ov_dicts (weaknesses c)),
      (''configurations'', ov_dicts (configurations c)),
      (''raw_data'', ov_dict (raw_data c))]"

section \<open>CVEService: the transformer and the upsert\<close>

text \<open>
  A date string of the upstream payload: one that \<^verbatim>\<open>datetime.fromisoformat\<close> accepts,
  with the instant it denotes, or one it rejects (the empty string included).
\<close>

datatype date_str = IsoDate int | NotIsoDate

record cvss_data =
  baseScore :: "rat option"
  vectorString :: "string option"
  baseSeverity :: "string option"

text \<open>
  The dictionary \<^verbatim>\<open>NVDCVEItem.cve\<close>, read through the keys \<^verbatim>\<open>_process_nvd_item\<close>
  uses. An optional field is \<open>None\<close> when the key is absent. A description is the pair
  of its \<^verbatim>\<open>lang\<close> and its text, a metric is its \<^verbatim>\<open>cvssData\<close>; \<open>nvd_raw\<close> is the
  dictionary itself, as it is stored in \<^verbatim>\<open>raw_data\<close>.
\<close>

record nvd_cve =
  nvd_id :: string
  nvd_sourceIdentifier :: "string option"
  nvd_vulnStatus :: "string option"
  nvd_published :: "date_str option"
  nvd_lastModified :: "date_str option"
  nvd_descriptions :: "(string \<times> string) list"
  nvd_cvssMetricV2 :: "cvss_data list"
  nvd_cvssMetricV31 :: "cvss_data list"
  nvd_cvssMetricV30 :: "cvss_data list"
  nvd_configurations :: "json list option"
  nvd_references :: "json list option"
  nvd_weaknesses :: "json list option"
  nvd_raw :: "(string \<times> json) list"

definition parse_date :: "date_str option \<Rightarrow> int option" where
  "parse_date d =
     (case d of None \<Rightarrow> None | Some NotIsoDate \<Rightarrow> None | Some (IsoDate t) \<Rightarrow> Some t)"

definition extract_description :: "(string \<times> string) list \<Rightarrow> string option" where
  "extract_description descriptions =
     (case descriptions of
        [] \<Rightarrow> None
      | d # ds \<Rightarrow>
          (case find (\<lambda>desc. lower (fst desc) = ''en'') descriptions of
             Some desc \<Rightarrow> Some (strip (snd desc))
           | None \<Rightarrow> Some (strip (snd d))))"

definition metric_fields :: "cvss_data \<Rightarrow> rat option \<times> string option \<times> string option" where
  "metric_fields m =
     (baseScore m, vectorString m,
      Some (upper (case baseSeverity m of None \<Rightarrow> [] | Some s \<Rightarrow> s)))"

definition extract_cvss_v2 :: "nvd_cve \<Rightarrow> rat option \<times> string option \<times> string option" where
  "extract_cvss_v2 item =
     (case nvd_cvssMetricV2 item of
        [] \<Rightarrow> (None, None, None)
      | m # ms \<Rightarrow> metric_fields m)"

definition extract_cvss_v3 :: "nvd_cve \<Rightarrow> rat option \<times> string option \<times> string option" where
  "extract_cvss_v3 item =
     (case nvd_cvssMetricV31 item of
        m # ms \<Rightarrow> metric_fields m
      | [] \<Rightarrow>
          (case nvd_cvssMetricV30 item of
             m # ms \<Rightarrow> metric_fields m
           | [] \<Rightarrow> (None, None, None)))"

definition or_default :: "'a option \<Rightarrow> 'a \<Rightarrow> 'a" where
  "or_default x d = (case x of None \<Rightarrow> d | Some v \<Rightarrow> v)"

text \<open>\<^verbatim>\<open>CVEService._process_nvd_item\<close>; the construction of the \<^verbatim>\<open>CVECreate\<close> validates.\<close>

definition process_nvd_item :: "nvd_cve \<Rightarrow> error + cve_create" where
  "process_nvd_item item =
     (let v2 = extract_cvss_v2 item; v3 = extract_cvss_v3 item
      in validate_cve_create
           \<lparr>cve_id = nvd_id item,
            source_identifier = Some (or_default (nvd_sourceIdentifier item) []),
            vuln_status = Some (or_default (nvd_vulnStatus item) []),
            published = parse_date (nvd_published item),
            last_modified = parse_date (nvd_lastModified item),
            description = extract_description (nvd_descriptions item),
            cvss_v2_score = truthy_score (fst v2),
            cvss_v3_score = truthy_score (fst v3),
            cvss_v2_vector = fst (snd v2),
            cvss_v3_vector = fst (snd v3),
            cvss_v2_severity = snd (snd v2),
            cvss_v3_severity = snd (snd v3),
            cpe_configurations = Some (or_default (nvd_configurations item) []),
            references = Some (or_default (nvd_references item) []),
            weaknesses = Some (or_default (nvd_weaknesses item) []),
            configurations = Some (or_default (nvd_configurations item) []),
            raw_data = Some (nvd_raw item)\<rparr>)"

text \<open>
  The guard of the update branch:
  \<^verbatim>\<open>cve_data.last_modified and existing_cve.last_modified and cve_data.last_modified > existing_cve.last_modified\<close>.
\<close>

definition is_newer :: "int option \<Rightarrow> int option \<Rightarrow> bool" where
  "is_newer incoming stored =
     (case incoming of
        None \<Rightarrow> False
      | Some a \<Rightarrow> (case stored of None \<Rightarrow> False | Some b \<Rightarrow> b < a))"

text \<open>
  \<^verbatim>\<open>CVEService.upsert_cve_from_nvd\<close>: the state afterwards, and either the exception it
  re-raises or the pair \<^verbatim>\<open>(cve_id, was_created)\<close>.
\<close>

definition upsert_cve_from_nvd :: "int \<Rightarrow> database \<Rightarrow> nvd_cve \<Rightarrow> database \<times> (error + string \<times> bool)" where
  "upsert_cve_from_nvd now db nvd_item =
     (case process_nvd_item nvd_item of
        Inl e \<Rightarrow> (db, Inl e)
      | Inr cve_data \<Rightarrow>
          (case get_cve_by_id db (cve_id cve_data) of
             Some existing_cve \<Rightarrow>
               if is_newer (last_modified cve_data) (last_modified existing_cve)
               then (fst (update_cve now db (cve_id cve_data) (cve_update_of cve_data)),
                     Inr (cve_id cve_data, False))
               else (db, Inr (cve_id cve_data, False))
           | None \<Rightarrow>
               (case create_cve now db cve_data of
                  (db', Inl e) \<Rightarrow> (db', Inl e)
                | (db', Inr c) \<Rightarrow> (db', Inr (cve_id cve_data, True)))))"

text \<open>
  \<^verbatim>\<open>CVEService.upsert_cves_batch\<close>: the loop over the items with its two counters; an
  item whose upsert raises is logged and skipped.
\<close>

fun upsert_loop :: "int \<Rightarrow> database \<Rightarrow> nvd_cve list \<Rightarrow> int \<Rightarrow> int \<Rightarrow> database \<times> int \<times> int" where
  "upsert_loop now db [] created_count updated_count = (db, created_count, updated_count)"
| "upsert_loop now db (nvd_item # rest) created_count updated_count =
     (case upsert_cve_from_nvd now db nvd_item of
        (db', Inr (i, was_created)) \<Rightarrow>
          if was_created then upsert_loop now db' rest (created_count + 1) updated_count
          else upsert_loop now db' rest created_count (updated_count + 1)
      | (db', Inl e) \<Rightarrow> upsert_loop now db' rest created_count updated_count)"

definition upsert_cves_batch :: "int \<Rightarrow> database \<Rightarrow> nvd_cve list \<Rightarrow> database \<times> int \<times> int" where
  "upsert_cves_batch now db nvd_items = upsert_loop now db nvd_items 0 0"

section \<open>CVEService: listing and statistics\<close>

text \<open>
  The conditions the query builder collects (\<^verbatim>\<open>eq\<close>, \<^verbatim>\<open>gte\<close>, \<^verbatim>\<open>lte\<close>,
  \<^verbatim>\<open>ilike\<close>), each on a column. A comparison with NULL selects nothing.
\<close>

datatype cond =
    Eq string val
  | Gte string val
  | Lte string val
  | ILike string string

fun cond_column :: "cond \<Rightarrow> string" where
  "cond_column (Eq c v) = c"
| "cond_column (Gte c v) = c"
| "cond_column (Lte c v) = c"
| "cond_column (ILike c p) = c"

fun str_le :: "string \<Rightarrow> string \<Rightarrow> bool" where
  "str_le [] t = True"
| "str_le (c # s) [] = False"
| "str_le (c # s) (d # t) = ((of_char c :: nat) < of_char d \<or> (c = d \<and> str_le s t))"

definition val_le :: "val \<Rightarrow> val \<Rightarrow> bool" where
  "val_le a b =
     (case (a, b) of
        (VTime x, VTime y) \<Rightarrow> x \<le> y
      | (VStr x, VStr y) \<Rightarrow> str_le x y
      | _ \<Rightarrow> (case (num_of a, num_of b) of (Some x, Some y) \<Rightarrow> x \<le> y | _ \<Rightarrow> False))"

text \<open>The wildcards of a LIKE pattern: \<open>%\<close> for any text, \<open>_\<close> for one character.\<close>

fun like_match :: "string \<Rightarrow> string \<Rightarrow> bool" where
  "like_match [] s = (s = [])"
| "like_match (p # ps) [] = (p = CHR ''%'' \<and> like_match ps [])"
| "like_match (p # ps) (c # s) =
     (if p = CHR ''%'' then (like_match ps (c # s) \<or> like_match (p # ps) s)
      else ((p = CHR ''_'' \<or> p = c) \<and> like_match ps s))"

fun cond_holds :: "cond \<Rightarrow> row \<Rightarrow> bool" where
  "cond_holds (Eq c v) r = (v \<noteq> VNull \<and> field r c = v)"
| "cond_holds (Gte c v) r = val_le v (field r c)"
| "cond_holds (Lte c v) r = val_le (field r c) v"
| "cond_holds (ILike c p) r =
     (case field r c of VStr s \<Rightarrow> like_match (lower p) (lower s) | _ \<Rightarrow> False)"

definition matches :: "cond list \<Rightarrow> row \<Rightarrow> bool" where
  "matches conds r = list_all (\<lambda>c. cond_holds c r) conds"

text \<open>Ordering by a column: an insertion sort, NULL after every value when ascending.\<close>

definition key_le :: "val \<Rightarrow> val \<Rightarrow> bool" where
  "key_le a b = (if b = VNull then True else if a = VNull then False else val_le a b)"

fun insert_by :: "('a \<Rightarrow> 'a \<Rightarrow> bool) \<Rightarrow> 'a \<Rightarrow> 'a list \<Rightarrow> 'a list" where
  "insert_by le x [] = [x]"
| "insert_by le x (y # ys) = (if le x y then x # y # ys else y # insert_by le x ys)"

definition order_rows :: "string \<Rightarrow> bool \<Rightarrow> row list \<Rightarrow> row list" where
  "order_rows c desc rows =
     (let asc = foldr (insert_by (\<lambda>r1 r2. key_le (field r1 c) (field r2 c))) rows []
      in if desc then rev asc else asc)"

text \<open>
  The execution of a select on \<^verbatim>\<open>cves\<close> with conditions, an order and
  \<^verbatim>\<open>range(off, off + n - 1)\<close>, which the client sends as the offset \<open>off\<close> and the
  limit \<open>n\<close>.
\<close>

definition select_cves :: "database \<Rightarrow> cond list \<Rightarrow> string \<Rightarrow> bool \<Rightarrow> int \<Rightarrow> int \<Rightarrow> db_error + row list" where
  "select_cves db conds sort_field sort_desc off n =
     (case find (\<lambda>c. c \<notin> set (cves_columns db)) (map cond_column conds @ [sort_field]) of
        Some c \<Rightarrow> Inl (UnknownColumn c)
      | None \<Rightarrow>
          if off < 0 \<or> n < 0 then Inl BadRange
          else Inr (take (nat n) (drop (nat off)
                 (order_rows sort_field sort_desc (filter (matches conds) (cves db))))))"

text \<open>
  Days from 1970-01-01 to a date of the proleptic Gregorian calendar, and the instant of
  its midnight (UTC): what the store makes of the date text \<^verbatim>\<open>"{year}-01-01"\<close> when it
  compares it with a timestamp column.
\<close>

definition days_from_civil :: "int \<Rightarrow> int \<Rightarrow> int \<Rightarrow> int" where
  "days_from_civil y m d =
     (let y' = (if m \<le> 2 then y - 1 else y);
          era = y' div 400;
          yoe = y' - era * 400;
          doy = (153 * (if 2 < m then m - 3 else m + 9) + 2) div 5 + d - 1;
          doe = yoe * 365 + yoe div 4 - yoe div 100 + doy
      in era * 146097 + doe - 719468)"

definition date_instant :: "int \<Rightarrow> int \<Rightarrow> int \<Rightarrow> int" where
  "date_instant y m d = 86400 * days_from_civil y m d"

record cve_filters =
  f_cve_id :: "string option"
  f_year :: "int option"
  f_min_score :: "rat option"
  f_max_score :: "rat option"
  f_severity :: "string option"
  f_vuln_status :: "string option"
  f_modified_since :: "int option"
  f_published_since :: "int option"
  f_keyword :: "string option"
  f_sort :: "string option"
  f_order :: "string option"

text \<open>Python's truth test on an optional string: absent and empty are both false.\<close>

definition truthy_str :: "string option \<Rightarrow> string option" where
  "truthy_str x = (case x of None \<Rightarrow> None | Some s \<Rightarrow> if s = [] then None else Some s)"

text \<open>The filters of \<^verbatim>\<open>CVEService.get_cves\<close>, in the order the code applies them.\<close>

definition filter_conds :: "cve_filters \<Rightarrow> cond list" where
  "filter_conds filters =
     (case truthy_str (f_cve_id filters) of None \<Rightarrow> [] | Some i \<Rightarrow> [Eq ''cve_id'' (VStr i)])
     @ (case f_year filters of
          None \<Rightarrow> []
        | Some y \<Rightarrow>
            if y = 0 then []
            else [Gte ''published'' (VTime (date_instant y 1 1)),
                  Lte ''published'' (VTime (date_instant y 12 31))])
     @ (case f_min_score filters of None \<Rightarrow> [] | Some q \<Rightarrow> [Gte ''cvss_v3_score'' (VNum q)])
     @ (case f_max_score filters of None \<Rightarrow> [] | Some q \<Rightarrow> [Lte ''cvss_v3_score'' (VNum q)])
     @ (case truthy_str (f_severity filters) of
          None \<Rightarrow> [] | Some s \<Rightarrow> [Eq ''cvss_v3_severity'' (VStr (upper s))])
     @ (case truthy_str (f_vuln_status filters) of
          None \<Rightarrow> [] | Some s \<Rightarrow> [Eq ''vuln_status'' (VStr s)])
     @ (case f_modified_since filters of None \<Rightarrow> [] | Some t \<Rightarrow> [Gte ''last_modified'' (VTime t)])
     @ (case f_published_since filters of None \<Rightarrow> [] | Some t \<Rightarrow> [Gte ''published'' (VTime t)])
     @ (case truthy_str (f_keyword filters) of
          None \<Rightarrow> [] | Some k \<Rightarrow> [ILike ''description'' (''%'' @ k @ ''%'')])"

text \<open>\<^verbatim>\<open>CVEListResponse\<close>; its field \<^verbatim>\<open>size\<close> is \<open>page_size\<close>.\<close>

record cve_list_response =
  items :: "cve_response list"
  total :: int
  page :: int
  page_size :: int
  has_next :: bool
  has_prev :: bool

fun rows_to_responses :: "row list \<Rightarrow> error + cve_response list" where
  "rows_to_responses [] = Inr []"
| "rows_to_responses (r # rs) =
     (case row_to_cve_response r of
        Inl e \<Rightarrow> Inl e
      | Inr c \<Rightarrow> (case rows_to_responses rs of Inl e \<Rightarrow> Inl e | Inr cs \<Rightarrow> Inr (c # cs)))"

text \<open>The response of the \<^verbatim>\<open>except\<close> branch of \<^verbatim>\<open>get_cves\<close>.\<close>

definition empty_page :: "int \<Rightarrow> int \<Rightarrow> cve_list_response" where
  "empty_page p s =
     \<lparr>items = [], total = 0, page = p, page_size = s, has_next = False, has_prev = False\<rparr>"

text \<open>
  \<^verbatim>\<open>CVEService.get_cves\<close>. The count comes from a second query on the table, which
  carries none of the filters.
\<close>

definition get_cves :: "database \<Rightarrow> cve_filters \<Rightarrow> int \<Rightarrow> int \<Rightarrow> cve_list_response" where
  "get_cves db filters p s =
     (let sort_field = or_default (truthy_str (f_sort filters)) ''last_modified'';
          sort_desc = (lower (or_default (truthy_str (f_order filters)) ''desc'') = ''desc'');
          offset = (p - 1) * s
      in case select_cves db (filter_conds filters) sort_field sort_desc offset s of
           Inl e \<Rightarrow> empty_page p s
         | Inr rows \<Rightarrow>
             (case rows_to_responses rows of
                Inl e \<Rightarrow> empty_page p s
              | Inr its \<Rightarrow>
                  (let count = int (length (cves db))
                   in \<lparr>items = its, total = count, page = p, page_size = s,
                        has_next = (p * s < count), has_prev = (1 < p)\<rparr>)))"





section \<open>The endpoint get_cve of app/api/v1/cves.py\<close>

datatype http_error = HTTPException nat string

text \<open>
  The path parameter is validated against the pattern before the handler runs (status 422);
  the handler looks the upper-cased identifier up and answers 404 when there is no row.
\<close>

definition get_cve :: "database \<Rightarrow> string \<Rightarrow> http_error + cve_response" where
  "get_cve db i =
     (if \<not> cve_id_pattern i then Inl (HTTPException 422 ''string does not match pattern'')
      else
        (case get_cve_by_id db (upper i) of
           None \<Rightarrow> Inl (HTTPException 404 (''CVE '' @ i @ '' not found''))
         | Some cve \<Rightarrow> Inr cve))"

section \<open>NVDClient: one request with retries\<close>







section \<open>NVDClient: streaming all pages\<close>

text \<open>The two fields of \<^verbatim>\<open>NVDResponse\<close> the stream reads.\<close>

record 'a nvd_response =
  vulnerabilities :: "'a list"
  total_results :: int

text \<open>How the generator ends: it returns, or an exception of a page request is re-raised.\<close>

datatype stream_end = Exhausted | Raised error

text \<open>\<^verbatim>\<open>max_results and fetched_count >= max_results\<close>.\<close>

definition cap_reached :: "int option \<Rightarrow> nat \<Rightarrow> bool" where
  "cap_reached max_results fetched_count =
     (case max_results of None \<Rightarrow> False | Some m \<Rightarrow> m \<noteq> 0 \<and> m \<le> int fetched_count)"

text \<open>
  The inner \<^verbatim>\<open>for\<close> loop over one page: the items yielded, the counter afterwards, and
  whether the generator returned from inside the loop.
\<close>

fun yield_page :: "int option \<Rightarrow> 'a list \<Rightarrow> nat \<Rightarrow> 'a list \<times> nat \<times> bool" where
  "yield_page max_results [] fetched_count = ([], fetched_count, False)"
| "yield_page max_results (vuln # rest) fetched_count =
     (if cap_reached max_results (Suc fetched_count) then ([vuln], Suc fetched_count, True)
      else
        (case yield_page max_results rest (Suc fetched_count) of
           (ys, n, returned) \<Rightarrow> (vuln # ys, n, returned)))"

text \<open>
  The page size of the next request: the adjustment of \<^verbatim>\<open>kwargs['results_per_page']\<close>,
  then \<^verbatim>\<open>results_per_page or self.results_per_page\<close> of \<^verbatim>\<open>get_cves\<close>.
\<close>

definition adjust_kwargs :: "int \<Rightarrow> int option \<Rightarrow> int option \<Rightarrow> nat \<Rightarrow> int option" where
  "adjust_kwargs self_rpp max_results kw fetched_count =
     (case max_results of
        None \<Rightarrow> kw
      | Some m \<Rightarrow>
          if m \<noteq> 0 \<and> m - int fetched_count < self_rpp then Some (m - int fetched_count) else kw)"

definition page_size_of :: "int \<Rightarrow> int option \<Rightarrow> int" where
  "page_size_of self_rpp kw =
     (case kw of None \<Rightarrow> self_rpp | Some k \<Rightarrow> if k = 0 then self_rpp else k)"

text \<open>
  The \<^verbatim>\<open>while True\<close> loop of \<^verbatim>\<open>NVDClient.get_all_cves\<close>. \<open>fetch start n\<close> is
  \<^verbatim>\<open>self.get_cves(start_index=start, results_per_page=n, ...)\<close> with the caller's
  filters. The loop has no bound of its own, so the model counts page requests down from
  \<open>fuel\<close> and is \<open>None\<close> when they run out. The sleep between two pages is not part of
  the result.
\<close>

fun get_all_cves_loop ::
  "nat \<Rightarrow> int \<Rightarrow> (nat \<Rightarrow> int \<Rightarrow> error + 'a nvd_response) \<Rightarrow> int option \<Rightarrow> int option \<Rightarrow> nat \<Rightarrow> nat
     \<Rightarrow> ('a list \<times> stream_end) option" where
  "get_all_cves_loop 0 self_rpp fetch max_results kw start_index fetched_count = None"
| "get_all_cves_loop (Suc fuel) self_rpp fetch max_results kw start_index fetched_count =
     (let kw' = adjust_kwargs self_rpp max_results kw fetched_count
      in case fetch start_index (page_size_of self_rpp kw') of
           Inl e \<Rightarrow> Some ([], Raised e)
         | Inr response \<Rightarrow>
             if vulnerabilities response = [] then Some ([], Exhausted)
             else
               (case yield_page max_results (vulnerabilities response) fetched_count of
                  (ys, n, returned) \<Rightarrow>
                    if returned then Some (ys, Exhausted)
                    else if total_results response
                              \<le> int (start_index + length (vulnerabilities response))
                    then Some (ys, Exhausted)
                    else
                      (case get_all_cves_loop fuel self_rpp fetch max_results kw'
                              (start_index + length (vulnerabilities response)) n of
                         None \<Rightarrow> None
                       | Some (zs, fin) \<Rightarrow> Some (ys @ zs, fin))))"

definition get_all_cves ::
  "nat \<Rightarrow> int \<Rightarrow> (nat \<Rightarrow> int \<Rightarrow> error + 'a nvd_response) \<Rightarrow> int option \<Rightarrow> int option
     \<Rightarrow> ('a list \<times> stream_end) option" where
  "get_all_cves fuel self_rpp fetch max_results kw =
     get_all_cves_loop fuel self_rpp fetch max_results kw 0 0"


section \<open>SyncService\<close>

datatype sync_status_enum = PENDING | RUNNING | COMPLETED | FAILED | CANCELLED

fun enum_value :: "sync_status_enum \<Rightarrow> string" where
  "enum_value PENDING = ''pending''"
| "enum_value RUNNING = ''running''"
| "enum_value COMPLETED = ''completed''"
| "enum_value FAILED = ''failed''"
| "enum_value CANCELLED = ''cancelled''"

definition is_terminal :: "string \<Rightarrow> bool" where
  "is_terminal st = (st = ''completed'' \<or> st = ''failed'' \<or> st = ''cancelled'')"

text \<open>
  \<^verbatim>\<open>SyncService._update_sync_status\<close>: all six columns are written on every call, the
  completion time only for a terminal status.
\<close>

definition update_sync_status ::
  "int \<Rightarrow> database \<Rightarrow> int \<Rightarrow> sync_status_enum \<Rightarrow> int \<Rightarrow> int \<Rightarrow> int \<Rightarrow> int \<Rightarrow> int option \<Rightarrow> database" where
  "update_sync_status now db sid st n_total processed new updated lmd =
     db\<lparr>sync_status :=
          map (\<lambda>r. if sync_id r = sid
                    then r\<lparr>status := enum_value st,
                           total_records := n_total,
                           processed_records := processed,
                           new_records := new,
                           updated_records := updated,
                           last_modified_date := lmd,
                           completed_at :=
                             (if is_terminal (enum_value st) then Some now else completed_at r)\<rparr>
                    else r)
              (sync_status db)\<rparr>"

text \<open>
  The row of \<^verbatim>\<open>select("id").eq("status", "running").order("started_at", desc=True).limit(1)\<close>:
  a running row with the latest start (the first such row of the table, where the store
  is free to pick any).
\<close>

definition latest_running :: "sync_row list \<Rightarrow> sync_row option" where
  "latest_running rows =
     (case filter (\<lambda>r. status r = ''running'') rows of
        [] \<Rightarrow> None
      | r # rs \<Rightarrow> Some (foldl (\<lambda>best x. if started_at best < started_at x then x else best) r rs))"

text \<open>
  \<^verbatim>\<open>SyncService._update_sync_status_error\<close>. A \<^verbatim>\<open>sync_id\<close> that is \<^verbatim>\<open>None\<close> or
  zero is false for \<^verbatim>\<open>if not sync_id\<close>.
\<close>

definition update_sync_status_error :: "int \<Rightarrow> database \<Rightarrow> int option \<Rightarrow> string \<Rightarrow> database" where
  "update_sync_status_error now db sid error_text =
     (let target =
            (case sid of
               Some i \<Rightarrow> if i = 0 then map_option sync_id (latest_running (sync_status db)) else Some i
             | None \<Rightarrow> map_option sync_id (latest_running (sync_status db)))
      in case target of
           None \<Rightarrow> db
         | Some i \<Rightarrow>
             db\<lparr>sync_status :=
                  map (\<lambda>r. if sync_id r = i
                            then r\<lparr>status := enum_value FAILED,
                                   error_message := Some error_text,
                                   completed_at := Some now\<rparr>
                            else r)
                      (sync_status db)\<rparr>)"

text \<open>
  The body of the \<^verbatim>\<open>async for\<close> loop of \<^verbatim>\<open>_perform_full_sync\<close> over the items the
  stream yields: the state, the open batch and the three totals.
\<close>

fun process_stream ::
  "int \<Rightarrow> int \<Rightarrow> int \<Rightarrow> int \<Rightarrow> database \<Rightarrow> nvd_cve list \<Rightarrow> nvd_cve list \<Rightarrow> int \<Rightarrow> int \<Rightarrow> int
     \<Rightarrow> database \<times> nvd_cve list \<times> int \<times> int \<times> int" where
  "process_stream now batch_size sid n_total db [] batch processed created updated =
     (db, batch, processed, created, updated)"
| "process_stream now batch_size sid n_total db (cve_item # rest) batch processed created updated =
     (if batch_size \<le> int (length (batch @ [cve_item])) then
        (case upsert_cves_batch now db (batch @ [cve_item]) of
           (db', c, u) \<Rightarrow>
             process_stream now batch_size sid n_total
               (update_sync_status now db' sid RUNNING n_total
                  (processed + int (length (batch @ [cve_item]))) (created + c) (updated + u) None)
               rest [] (processed + int (length (batch @ [cve_item]))) (created + c) (updated + u))
      else process_stream now batch_size sid n_total db rest (batch @ [cve_item])
             processed created updated)"

text \<open>
  \<^verbatim>\<open>SyncService._perform_full_sync\<close>: the state afterwards and the exception it
  re-raises, if any; \<open>None\<close> when the stream does not end within \<open>fuel\<close> page requests.
  The items do not depend on the store, so the stream is read first and its items are
  then processed in order; an exception of the stream arrives after the items yielded
  before it.
\<close>

definition perform_full_sync ::
  "nat \<Rightarrow> int \<Rightarrow> int \<Rightarrow> int \<Rightarrow> (nat \<Rightarrow> int \<Rightarrow> error + nvd_cve nvd_response) \<Rightarrow> database \<Rightarrow> int
     \<Rightarrow> (database \<times> error option) option" where
  "perform_full_sync fuel now batch_size self_rpp fetch db sid =
     (case fetch 0 1 of
        Inl e \<Rightarrow> Some (db, Some e)
      | Inr initial_response \<Rightarrow>
          (case get_all_cves fuel self_rpp fetch None None of
             None \<Rightarrow> None
           | Some (its, fin) \<Rightarrow>
               (case process_stream now batch_size sid (total_results initial_response)
                       (update_sync_status now db sid RUNNING (total_results initial_response) 0 0 0 None)
                       its [] 0 0 0 of
                  (db2, batch, processed, created, updated) \<Rightarrow>
                    (case fin of
                       Raised e \<Rightarrow> Some (db2, Some e)
                     | Exhausted \<Rightarrow>
                         (case (if batch = [] then (db2, 0, 0) else upsert_cves_batch now db2 batch) of
                            (db3, c, u) \<Rightarrow>
                              Some (update_sync_status now db3 sid COMPLETED
                                      (total_results initial_response)
                                      (processed + int (length batch)) (created + c) (updated + u)
                                      (Some now),
                                    None))))))"

text \<open>
  What the specification asks of the high-water mark, in its words: the maximum
  last-modified timestamp among the records processed.
\<close>

definition spec_max_last_modified :: "nvd_cve list \<Rightarrow> int option" where
  "spec_max_last_modified its =
     (case List.map_filter (\<lambda>i. parse_date (nvd_lastModified i)) its of
        [] \<Rightarrow> None
      | t # ts \<Rightarrow> Some (fold max ts t))"

text \<open>
  The background task of a run, as \<^verbatim>\<open>cancel_running_sync\<close> can find it: created and not
  yet started, suspended at an \<^verbatim>\<open>await\<close> inside \<^verbatim>\<open>_perform_sync\<close>, or done.
\<close>

datatype task_state = NotStarted | Suspended | Done

record task =
  task_sync_id :: int
  task_state :: task_state

record sync_service =
  running_sync :: "task option"

definition is_sync_running :: "sync_service \<Rightarrow> bool" where
  "is_sync_running svc =
     (case running_sync svc of None \<Rightarrow> False | Some t \<Rightarrow> task_state t \<noteq> Done)"

text \<open>
  \<^verbatim>\<open>task.cancel()\<close> followed by \<^verbatim>\<open>await task\<close>: a suspended task gets the
  \<^verbatim>\<open>CancelledError\<close> at its \<^verbatim>\<open>await\<close>, and the handler of \<^verbatim>\<open>_perform_sync\<close> records
  it through \<^verbatim>\<open>_update_sync_status_error\<close>; a task that has not started is cancelled
  without running.
\<close>

definition cancel_task :: "int \<Rightarrow> database \<Rightarrow> task \<Rightarrow> database" where
  "cancel_task now db t =
     (case task_state t of
        Suspended \<Rightarrow> update_sync_status_error now db (Some (task_sync_id t)) ''Synchronization cancelled''
      | _ \<Rightarrow> db)"

text \<open>\<^verbatim>\<open>SyncService.cancel_running_sync\<close>: the returned flag and the state afterwards.\<close>

definition cancel_running_sync :: "int \<Rightarrow> sync_service \<Rightarrow> database \<Rightarrow> bool \<times> sync_service \<times> database" where
  "cancel_running_sync now svc db =
     (if \<not> is_sync_running svc then (False, svc, db)
      else
        (let db1 = (case running_sync svc of None \<Rightarrow> db | Some t \<Rightarrow> cancel_task now db t)
         in (True, svc\<lparr>running_sync := None\<rparr>,
             update_sync_status_error now db1 None ''Synchronization cancelled by user'')))"

section \<open>Outcomes of a batch\<close>


definition was_created :: "error + string \<times> bool \<Rightarrow> bool" where
  "was_created r = (case r of Inl e \<Rightarrow> False | Inr (i, b) \<Rightarrow> b)"



section \<open>Example data\<close>

definition example_item :: nvd_cve where
  "example_item =
     \<lparr>nvd_id = ''CVE-2023-0001'',
      nvd_sourceIdentifier = Some ''nvd@nist.gov'',
      nvd_vulnStatus = Some ''Analyzed'',
      nvd_published = Some (IsoDate 50),
      nvd_lastModified = Some (IsoDate 100),
      nvd_descriptions = [(''en'', ''first text'')],
      nvd_cvssMetricV2 = [],
      nvd_cvssMetricV31 =
        [\<lparr>baseScore = Some 9.8, vectorString = Some ''AV:N'', baseSeverity = Some ''CRITICAL''\<rparr>],
      nvd_cvssMetricV30 = [],
      nvd_configurations = None,
      nvd_references = Some [JObj [(''url'', JStr ''http://a'')]],
      nvd_weaknesses = None,
      nvd_raw = [(''id'', JStr ''CVE-2023-0001'')]\<rparr>"

text \<open>The same record, modified later upstream, with another reference list.\<close>

definition example_item_newer :: nvd_cve where
  "example_item_newer =
     example_item
       \<lparr>nvd_lastModified := Some (IsoDate 200),
        nvd_references := Some [JObj [(''url'', JStr ''http://b'')]]\<rparr>"


definition empty_db :: database where
  "empty_db =
     \<lparr>cves_columns = cves_schema, cves = [], cves_next_id = 1,
      sync_status = [], sync_next_id = 1\<rparr>"

text \<open>
  The row the first sync of \<open>example_item\<close> at instant 1000 inserts, and the store
  that holds it.
\<close>

definition example_row :: row where
  "example_row =
     [(''id'', VInt 1), (''cve_id'', VStr ''CVE-2023-0001''),
      (''source_identifier'', VStr ''nvd@nist.gov''), (''vuln_status'', VStr ''Analyzed''),
      (''published'', VTime 50), (''last_modified'', VTime 100),
      (''description'', VStr ''first text''),
      (''cvss_v2_score'', VNull), (''cvss_v3_score'', VNum 9.8),
      (''cvss_v2_vector'', VNull), (''cvss_v3_vector'', VStr ''AV:N''),
      (''cvss_v2_severity'', VNull), (''cvss_v3_severity'', VStr ''CRITICAL''),
      (''cpe_configurations'', VJson (JArr [])),
      (''cve_references'', VJson (JArr [JObj [(''url'', JStr ''http://a'')]])),
      (''weaknesses'', VJson (JArr [])), (''configurations'', VJson (JArr [])),
      (''raw_data'', VJson (JObj [(''id'', JStr ''CVE-2023-0001'')])),
      (''created_at'', VTime 1000), (''updated_at'', VTime 1000)]"

definition example_db :: database where
  "example_db = empty_db\<lparr>cves := [example_row], cves_next_id := 2\<rparr>"

text \<open>The same, for a table that also has a column named \<^verbatim>\<open>references\<close>.\<close>

definition example_db_wide :: database where
  "example_db_wide =
     \<lparr>cves_columns = cves_schema @ [''references''],
      cves = [example_row @ [(''references'', VNull)]], cves_next_id = 2,
      sync_status = [], sync_next_id = 1\<rparr>"

text \<open>A second record, of severity HIGH, and the store that holds both.\<close>

definition example_item_other :: nvd_cve where
  "example_item_other =
     example_item
       \<lparr>nvd_id := ''CVE-2023-0002'',
        nvd_cvssMetricV31 :=
          [\<lparr>baseScore = Some 7.5, vectorString = Some ''AV:L'', baseSeverity = Some ''HIGH''\<rparr>],
        nvd_raw := [(''id'', JStr ''CVE-2023-0002'')]\<rparr>"

definition example_row_other :: row where
  "example_row_other =
     [(''id'', VInt 2), (''cve_id'', VStr ''CVE-2023-0002''),
      (''source_identifier'', VStr ''nvd@nist.gov''), (''vuln_status'', VStr ''Analyzed''),
      (''published'', VTime 50), (''last_modified'', VTime 100),
      (''description'', VStr ''first text''),
      (''cvss_v2_score'', VNull), (''cvss_v3_score'', VNum 7.5),
      (''cvss_v2_vector'', VNull), (''cvss_v3_vector'', VStr ''AV:L''),
      (''cvss_v2_severity'', VNull), (''cvss_v3_severity'', VStr ''HIGH''),
      (''cpe_configurations'', VJson (JArr [])),
      (''cve_references'', VJson (JArr [JObj [(''url'', JStr ''http://a'')]])),
      (''weaknesses'', VJson (JArr [])), (''configurations'', VJson (JArr [])),
      (''raw_data'', VJson (JObj [(''id'', JStr ''CVE-2023-0002'')])),
      (''created_at'', VTime 1000), (''updated_at'', VTime 1000)]"

definition example_db2 :: database where
  "example_db2 = empty_db\<lparr>cves := [example_row, example_row_other], cves_next_id := 3\<rparr>"

definition no_filters :: cve_filters where
  "no_filters =
     \<lparr>f_cve_id = None, f_year = None, f_min_score = None, f_max_score = None,
      f_severity = None, f_vuln_status = None, f_modified_since = None,
      f_published_since = None, f_keyword = None,
      f_sort = Some ''last_modified'', f_order = Some ''desc''\<rparr>"

definition critical_only :: cve_filters where
  "critical_only = no_filters\<lparr>f_severity := Some ''critical''\<rparr>"

section \<open>Readable rows\<close>

text \<open>A stored row that \<^verbatim>\<open>_row_to_cve_response\<close> converts without raising.\<close>

definition readable :: "row \<Rightarrow> bool" where
  "readable r = (case row_to_cve_response r of Inl e \<Rightarrow> False | Inr c \<Rightarrow> True)"

text \<open>The columns the filters of \<^verbatim>\<open>get_cves\<close> can name.\<close>

definition filter_columns :: "string list" where
  "filter_columns =
     [''cve_id'', ''published'', ''cvss_v3_score'', ''cvss_v3_severity'', ''vuln_status'',
      ''last_modified'', ''description'']"

section \<open>Reading the trace of a request\<close>







section \<open>What a stream is expected to yield\<close>




section \<open>The upsert\<close>

text \<open>The example stores are what the code makes of the example items.\<close>

lemma example_db_from_sync:
  "upsert_cve_from_nvd 1000 empty_db example_item = (example_db, Inr (''CVE-2023-0001'', True))"
  by code_simp

lemma example_db_wide_from_sync:
  "upsert_cve_from_nvd 1000 (empty_db\<lparr>cves_columns := cves_schema @ [''references'']\<rparr>) example_item
     = (example_db_wide, Inr (''CVE-2023-0001'', True))"
  by code_simp

lemma example_db2_from_sync:
  "upsert_cve_from_nvd 1000 example_db example_item_other
     = (example_db2, Inr (''CVE-2023-0002'', True))"
  by code_simp


lemma field_apply_update:
  "map_of body k = None \<Longrightarrow> field (apply_update body r) k = field r k"
  by (induction r) (auto simp: apply_update_def field_def)

lemma cve_update_of_no_cve_references:
  "map_of (cve_update_of c @ [(''updated_at'', VTime now)]) ''cve_references'' = None"
  by (simp add: cve_update_of_def)

lemma update_cves_keeps_references:
  "update_cves db (cve_update_of c @ [(''updated_at'', VTime now)]) i = Inr (db', rows) \<Longrightarrow>
   map (\<lambda>r. field r ''cve_references'') (cves db') = map (\<lambda>r. field r ''cve_references'') (cves db)"
  using field_apply_update [OF cve_update_of_no_cve_references, of c now]
  by (auto simp: update_cves_def split: option.splits)

lemma update_cve_keeps_references:
  "map (\<lambda>r. field r ''cve_references'') (cves (fst (update_cve now db i (cve_update_of c))))
     = map (\<lambda>r. field r ''cve_references'') (cves db)"
  using update_cves_keeps_references [of db c now i]
  by (auto simp: update_cve_def split: sum.splits list.splits prod.splits)

text \<open>
  Whatever the columns of the table are, an upsert of a record that is stored already
  leaves the column \<^verbatim>\<open>cve_references\<close> of every row as it was: the update writes the
  reference list under the key \<^verbatim>\<open>references\<close>.
\<close>

lemma upsert_existing_keeps_references:
  assumes "process_nvd_item item = Inr c" and "get_cve_by_id db (cve_id c) = Some e"
  shows "map (\<lambda>r. field r ''cve_references'') (cves (fst (upsert_cve_from_nvd now db item)))
           = map (\<lambda>r. field r ''cve_references'') (cves db)"
  using assms update_cve_keeps_references [of now db "cve_id c" c]
  by (simp add: upsert_cve_from_nvd_def)

text \<open>
  The two branches of the upsert that behave as specified: an incoming record that is not
  strictly newer writes nothing, and an absent identifier leads to \<^verbatim>\<open>create_cve\<close>,
  with \<^verbatim>\<open>was_created = True\<close> when the insert succeeds.
\<close>

lemma upsert_not_newer_writes_nothing:
  assumes "process_nvd_item item = Inr c" and "get_cve_by_id db (cve_id c) = Some e"
    and "\<not> is_newer (last_modified c) (last_modified e)"
  shows "upsert_cve_from_nvd now db item = (db, Inr (cve_id c, False))"
  using assms by (simp add: upsert_cve_from_nvd_def)

lemma upsert_absent_creates:
  assumes "process_nvd_item item = Inr c" and "get_cve_by_id db (cve_id c) = None"
    and "create_cve now db c = (db', Inr r)"
  shows "upsert_cve_from_nvd now db item = (db', Inr (cve_id c, True))"
  using assms by (simp add: upsert_cve_from_nvd_def)

text \<open>
  Claim C1 states that an upsert of a stored identifier with a strictly newer last-modified
  timestamp leaves the stored state equal to the incoming record. The code does not do
  that. \<open>example_db\<close> stores CVE-2023-0001 with last-modified 100 and the reference
  \<^verbatim>\<open>http://a\<close>; \<open>example_item_newer\<close> carries last-modified 200 and the reference
  \<^verbatim>\<open>http://b\<close>. The upsert takes the update branch and reports
  \<^verbatim>\<open>was_created = False\<close>, and the stored reference list is still \<^verbatim>\<open>http://a\<close>. With
  the columns the code names, the store rejects the update (it names the column
  \<^verbatim>\<open>references\<close>, the table has \<^verbatim>\<open>cve_references\<close>), \<^verbatim>\<open>update_cve\<close> swallows the
  exception and the whole row stays as it was; with a table that also has a column
  \<^verbatim>\<open>references\<close> the other fields are updated and the reference list that is read
  back is still the old one.
\<close>

theorem upsert_newer_leaves_references_stale:
  "snd (upsert_cve_from_nvd 2000 example_db example_item_newer) = Inr (''CVE-2023-0001'', False)
   \<and> (case process_nvd_item example_item_newer of Inl e \<Rightarrow> None | Inr c \<Rightarrow> references c)
       = Some [JObj [(''url'', JStr ''http://b'')]]
   \<and> map_option references
         (get_cve_by_id (fst (upsert_cve_from_nvd 2000 example_db example_item_newer)) ''CVE-2023-0001'')
       = Some (Some [JObj [(''url'', JStr ''http://a'')]])
   \<and> fst (upsert_cve_from_nvd 2000 example_db example_item_newer) = example_db
   \<and> map_option references
         (get_cve_by_id (fst (upsert_cve_from_nvd 2000 example_db_wide example_item_newer)) ''CVE-2023-0001'')
       = Some (Some [JObj [(''url'', JStr ''http://a'')]])
   \<and> map_option last_modified
         (get_cve_by_id (fst (upsert_cve_from_nvd 2000 example_db_wide example_item_newer)) ''CVE-2023-0001'')
       = Some (Some 200)"
  by code_simp

section \<open>The counters of a batch\<close>






section \<open>Statistics\<close>



section \<open>Identifiers and the endpoint get_cve\<close>

lemma pattern_split:
  "s = take 4 s @ take 4 (drop 4 s) @ take 1 (drop 8 s) @ drop 9 s"
proof -
  have "drop 8 s = take 1 (drop 8 s) @ drop 9 s"
    by (metis append_take_drop_id drop_drop one_plus_numeral semiring_norm(3))
  moreover have "drop 4 s = take 4 (drop 4 s) @ drop 8 s"
    by (metis append_take_drop_id drop_drop numeral_Bit0)
  ultimately show ?thesis by (metis append_take_drop_id)
qed

lemma upper_char_digit: "is_digit c \<Longrightarrow> upper_char c = c"
  by (simp add: is_digit_def upper_char_def)

lemma upper_digits: "list_all is_digit s \<Longrightarrow> map upper_char s = s"
  by (induction s) (simp_all add: upper_char_digit)

lemma upper_prefix: "upper ''CVE-'' = ''CVE-''"
  by code_simp

lemma upper_hyphen: "upper ''-'' = ''-''"
  by code_simp

lemma pattern_upper:
  assumes "cve_id_pattern s"
  shows "upper s = s"
proof -
  from assms have a: "take 4 s = ''CVE-''" and b: "list_all is_digit (take 4 (drop 4 s))"
    and c: "take 1 (drop 8 s) = ''-''" and d: "list_all is_digit (drop 9 s)"
    by (simp_all add: cve_id_pattern_def)
  have "upper s = upper (take 4 s) @ upper (take 4 (drop 4 s))
                  @ upper (take 1 (drop 8 s)) @ upper (drop 9 s)"
    unfolding upper_def map_append [symmetric] using pattern_split [of s] by simp
  also have "\<dots> = take 4 s @ take 4 (drop 4 s) @ take 1 (drop 8 s) @ drop 9 s"
    using a b c d upper_prefix upper_hyphen by (simp add: upper_digits upper_def)
  finally show ?thesis using pattern_split [of s] by simp
qed

text \<open>
  Claim C6 states that get-by-id with a lowercase identifier returns the same row as with
  the uppercase one. The endpoint rejects the lowercase form: \<open>example_db\<close> stores
  CVE-2023-0001, the request for \<^verbatim>\<open>cve-2023-0001\<close> is answered with status 422 and
  not with the row the uppercase request gets, and the model validator rejects the
  lowercase identifier too.
\<close>

theorem get_cve_lowercase_counterexample:
  "get_cve example_db ''cve-2023-0001''
     = Inl (HTTPException 422 ''string does not match pattern'')
   \<and> map_sum id cve_id (get_cve example_db ''CVE-2023-0001'') = Inr ''CVE-2023-0001''
   \<and> get_cve example_db ''cve-2023-0001'' \<noteq> get_cve example_db ''CVE-2023-0001''
   \<and> validate_cve_id ''cve-2023-0001'' = Inl (ValidationError ''cve_id'')"
  by code_simp

text \<open>
  Claim C6 as amended: an identifier that upper-casing would change (one with a lowercase
  letter) is rejected, by the endpoint with status 422 before any store operation and by
  the model validator with a validation error; an identifier that matches the pattern is
  in upper case already, the validator returns it as it is, and the endpoint answers with
  the row stored under exactly that identifier, or 404.
\<close>

theorem get_cve_rejects_lowercase:
  "(upper i \<noteq> i \<longrightarrow>
      get_cve db i = Inl (HTTPException 422 ''string does not match pattern'')
      \<and> validate_cve_id i = Inl (ValidationError ''cve_id''))
   \<and> (cve_id_pattern i \<longrightarrow>
        upper i = i \<and> validate_cve_id i = Inr i
        \<and> get_cve db i =
            (case get_cve_by_id db i of
               None \<Rightarrow> Inl (HTTPException 404 (''CVE '' @ i @ '' not found''))
             | Some c \<Rightarrow> Inr c))"
  using pattern_upper [of i]
  by (auto simp: get_cve_def validate_cve_id_def cve_id_pattern_def)

theorem get_cve_rejects_lowercase_witness:
  "upper ''cve-2023-0001'' \<noteq> ''cve-2023-0001''
   \<and> get_cve example_db ''cve-2023-0001''
       = Inl (HTTPException 422 ''string does not match pattern'')
   \<and> cve_id_pattern ''CVE-2023-0001''
   \<and> upper ''CVE-2023-0001'' = ''CVE-2023-0001''
   \<and> get_cve example_db ''CVE-2023-0001''
       = (case get_cve_by_id example_db ''CVE-2023-0001'' of
            None \<Rightarrow> Inl (HTTPException 404 (''CVE '' @ ''CVE-2023-0001'' @ '' not found''))
          | Some c \<Rightarrow> Inr c)
   \<and> map_option cve_id (get_cve_by_id example_db ''CVE-2023-0001'') = Some ''CVE-2023-0001''"
proof -
  have low: "upper ''cve-2023-0001'' \<noteq> ''cve-2023-0001''"
    by code_simp
  have up: "cve_id_pattern ''CVE-2023-0001''"
    by code_simp
  have row: "map_option cve_id (get_cve_by_id example_db ''CVE-2023-0001'') = Some ''CVE-2023-0001''"
    by code_simp
  from low up row
    get_cve_rejects_lowercase [of "''cve-2023-0001''" example_db]
    get_cve_rejects_lowercase [of "''CVE-2023-0001''" example_db]
  show ?thesis by simp
qed

section \<open>Listing with pagination\<close>

lemma set_insert_by: "set (insert_by le x ys) = insert x (set ys)"
  by (induction ys) auto

lemma set_order_rows: "set (order_rows c d rows) = set rows"
proof -
  have "set (foldr (insert_by le) rows []) = set rows" for le :: "row \<Rightarrow> row \<Rightarrow> bool"
    by (induction rows) (simp_all add: set_insert_by)
  then show ?thesis by (simp add: order_rows_def Let_def)
qed

lemma rows_to_responses_readable:
  "list_all readable rows \<Longrightarrow> \<exists>cs. rows_to_responses rows = Inr cs \<and> length cs = length rows"
proof (induction rows)
  case Nil
  then show ?case by simp
next
  case (Cons r rs)
  then obtain cs where cs: "rows_to_responses rs = Inr cs" "length cs = length rs" by auto
  from Cons.prems obtain c where "row_to_cve_response r = Inr c"
    by (auto simp: readable_def split: sum.splits)
  with cs show ?case by simp
qed

lemma filter_columns_members:
  "''cve_id'' \<in> set filter_columns" "''published'' \<in> set filter_columns"
  "''cvss_v3_score'' \<in> set filter_columns" "''cvss_v3_severity'' \<in> set filter_columns"
  "''vuln_status'' \<in> set filter_columns" "''last_modified'' \<in> set filter_columns"
  "''description'' \<in> set filter_columns"
  by (simp_all add: filter_columns_def)

lemma filter_conds_columns:
  "list_all (\<lambda>c. cond_column c \<in> set filter_columns) (filter_conds filters)"
  unfolding filter_conds_def list_all_append
  by (intro conjI) (simp_all add: filter_columns_members split: option.splits)

lemma schema_has_filter_columns:
  "set filter_columns \<subseteq> set cves_schema"
  by (simp add: cves_schema_def filter_columns_def)

lemma select_cves_ok:
  assumes "0 \<le> off" and "0 \<le> n"
    and "set cves_schema \<subseteq> set (cves_columns db)"
    and "sort_field \<in> set (cves_columns db)"
  shows "select_cves db (filter_conds filters) sort_field sort_desc off n
           = Inr (take (nat n) (drop (nat off)
                   (order_rows sort_field sort_desc (filter (matches (filter_conds filters)) (cves db)))))"
proof -
  have "c \<in> set (cves_columns db)"
    if "c \<in> set (map cond_column (filter_conds filters) @ [sort_field])" for c
  proof (cases "c = sort_field")
    case True
    with assms(4) show ?thesis by simp
  next
    case False
    with that obtain x where "x \<in> set (filter_conds filters)" "c = cond_column x" by auto
    with filter_conds_columns [of filters] have "c \<in> set filter_columns"
      by (simp add: list_all_iff)
    with schema_has_filter_columns assms(3) show ?thesis by blast
  qed
  then have "find (\<lambda>c. c \<notin> set (cves_columns db))
               (map cond_column (filter_conds filters) @ [sort_field]) = None"
    unfolding find_None_iff by blast
  with assms(1,2) show ?thesis by (simp add: select_cves_def)
qed

lemma get_cves_ok:
  assumes "1 \<le> p" and "1 \<le> s"
    and "set cves_schema \<subseteq> set (cves_columns db)"
    and "or_default (truthy_str (f_sort filters)) ''last_modified'' \<in> set (cves_columns db)"
    and "list_all readable (cves db)"
  shows "\<exists>its. rows_to_responses
            (take (nat s) (drop (nat ((p - 1) * s))
               (order_rows (or_default (truthy_str (f_sort filters)) ''last_modified'')
                  (lower (or_default (truthy_str (f_order filters)) ''desc'') = ''desc'')
                  (filter (matches (filter_conds filters)) (cves db))))) = Inr its
         \<and> int (length its) \<le> s
         \<and> get_cves db filters p s =
             \<lparr>items = its, total = int (length (cves db)), page = p, page_size = s,
              has_next = (p * s < int (length (cves db))), has_prev = (1 < p)\<rparr>"
proof -
  let ?sf = "or_default (truthy_str (f_sort filters)) ''last_modified''"
  let ?sd = "lower (or_default (truthy_str (f_order filters)) ''desc'') = ''desc''"
  let ?all = "order_rows ?sf ?sd (filter (matches (filter_conds filters)) (cves db))"
  let ?rows = "take (nat s) (drop (nat ((p - 1) * s)) ?all)"
  from assms(1,2) have off: "0 \<le> (p - 1) * s" by simp
  from assms(2) have n: "0 \<le> s" by simp
  have sel: "select_cves db (filter_conds filters) ?sf ?sd ((p - 1) * s) s = Inr ?rows"
    by (rule select_cves_ok [OF off n assms(3,4)])
  have "set ?rows \<subseteq> set ?all"
    by (meson set_take_subset set_drop_subset subset_trans)
  also have "\<dots> \<subseteq> set (cves db)"
    by (simp add: set_order_rows)
  finally have "list_all readable ?rows"
    using assms(5) by (auto simp: list_all_iff)
  then obtain its where its: "rows_to_responses ?rows = Inr its" "length its = length ?rows"
    using rows_to_responses_readable by blast
  have "length ?rows \<le> nat s" by simp
  with its(2) assms(2) have len: "int (length its) \<le> s" by linarith
  show ?thesis using sel its(1) len by (simp add: get_cves_def Let_def)
qed



text \<open>
  Claim C9. Whatever the filters are, the total that the list operation reports is the
  number of rows of the whole table, and \<^verbatim>\<open>has_next\<close> is computed from it. In the
  instance below the table holds two records, the filter matches one of them, and the
  page of that one record reports a total of two and a next page.
\<close>

theorem get_cves_total_is_table_count:
  assumes "1 \<le> p" and "1 \<le> s"
    and "set cves_schema \<subseteq> set (cves_columns db)"
    and "or_default (truthy_str (f_sort filters)) ''last_modified'' \<in> set (cves_columns db)"
    and "list_all readable (cves db)"
  shows "total (get_cves db filters p s) = int (length (cves db))
       \<and> has_next (get_cves db filters p s) = (p * s < int (length (cves db)))"
  using get_cves_ok [OF assms] by auto

theorem get_cves_total_is_table_count_witness:
  "(1::int) \<le> 1
   \<and> set cves_schema \<subseteq> set (cves_columns example_db2)
   \<and> or_default (truthy_str (f_sort critical_only)) ''last_modified'' \<in> set (cves_columns example_db2)
   \<and> list_all readable (cves example_db2)
   \<and> length (filter (matches (filter_conds critical_only)) (cves example_db2)) = 1
   \<and> map cve_id (items (get_cves example_db2 critical_only 1 1)) = [''CVE-2023-0001'']
   \<and> total (get_cves example_db2 critical_only 1 1) = 2
   \<and> has_next (get_cves example_db2 critical_only 1 1)"
proof -
  have facts:
    "set cves_schema \<subseteq> set (cves_columns example_db2)
     \<and> or_default (truthy_str (f_sort critical_only)) ''last_modified'' \<in> set (cves_columns example_db2)
     \<and> list_all readable (cves example_db2)
     \<and> length (cves example_db2) = 2
     \<and> length (filter (matches (filter_conds critical_only)) (cves example_db2)) = 1
     \<and> map cve_id (items (get_cves example_db2 critical_only 1 1)) = [''CVE-2023-0001'']"
    by code_simp
  then have h3: "set cves_schema \<subseteq> set (cves_columns example_db2)"
    and h4: "or_default (truthy_str (f_sort critical_only)) ''last_modified'' \<in> set (cves_columns example_db2)"
    and h5: "list_all readable (cves example_db2)"
    by blast+
  from get_cves_total_is_table_count [of 1 1 example_db2 critical_only, OF _ _ h3 h4 h5] facts
  show ?thesis by simp
qed

section \<open>The retry policy of a request\<close>











section \<open>Streaming all pages\<close>












end
